theory Spec2Isabelle
  imports Complex_Main
begin

section \<open>Floating-point values of the C program\<close>

text \<open>
  The program computes with C \<^verbatim>\<open>float\<close> and \<^verbatim>\<open>double\<close>. Its control flow depends on the
  special values: \<^verbatim>\<open>ampd\<close> tests \<^verbatim>\<open>r != r\<close> (true for a NaN only), \<^verbatim>\<open>sqrt\<close> of a
  negative sample is a NaN, and \<^verbatim>\<open>col_stddev_lms\<close> divides by \<^verbatim>\<open>l - 1.0\<close>, which is zero
  for \<^verbatim>\<open>lambda = 1\<close>. The model keeps these values apart from the finite ones. In the
  functions of the window a finite value is the exact real number: rounding and overflow
  of finite results are left out there (the batch loop rounds, see \<open>round_double\<close>),
  and the two zeros are one value (a nonzero value divided by zero gets the sign that
  \<^verbatim>\<open>+0.0\<close> gives). The concrete inputs used below have small integer values, on which
  the C arithmetic is exact; the one value that C rounds there, the intercept of the fit
  of a constant window, is subtracted from every sample alike and decides no comparison.
\<close>

datatype dbl = Finite real | PosInf | NegInf | NaN

fun dneg :: "dbl \<Rightarrow> dbl" where
  "dneg (Finite a) = Finite (- a)"
| "dneg PosInf = NegInf"
| "dneg NegInf = PosInf"
| "dneg NaN = NaN"

fun dadd :: "dbl \<Rightarrow> dbl \<Rightarrow> dbl" where
  "dadd (Finite a) (Finite b) = Finite (a + b)"
| "dadd NaN _ = NaN"
| "dadd _ NaN = NaN"
| "dadd PosInf NegInf = NaN"
| "dadd NegInf PosInf = NaN"
| "dadd PosInf _ = PosInf"
| "dadd NegInf _ = NegInf"
| "dadd _ PosInf = PosInf"
| "dadd _ NegInf = NegInf"

definition dsub :: "dbl \<Rightarrow> dbl \<Rightarrow> dbl" where
  "dsub a b = dadd a (dneg b)"

text \<open>The sign of a value that is not a NaN: \<open>-1\<close>, \<open>0\<close> or \<open>1\<close>.\<close>

fun dsgn :: "dbl \<Rightarrow> real" where
  "dsgn (Finite a) = sgn a"
| "dsgn PosInf = 1"
| "dsgn NegInf = - 1"
| "dsgn NaN = 0"

definition inf_of_sign :: "real \<Rightarrow> dbl" where
  "inf_of_sign s = (if s = 0 then NaN else if 0 < s then PosInf else NegInf)"

fun dmul :: "dbl \<Rightarrow> dbl \<Rightarrow> dbl" where
  "dmul (Finite a) (Finite b) = Finite (a * b)"
| "dmul NaN _ = NaN"
| "dmul _ NaN = NaN"
| "dmul a b = inf_of_sign (dsgn a * dsgn b)"

fun ddiv :: "dbl \<Rightarrow> dbl \<Rightarrow> dbl" where
  "ddiv (Finite a) (Finite b) = (if b = 0 then inf_of_sign (sgn a) else Finite (a / b))"
| "ddiv NaN _ = NaN"
| "ddiv _ NaN = NaN"
| "ddiv (Finite a) _ = Finite 0"
| "ddiv a (Finite b) = inf_of_sign (dsgn a * (if b < 0 then - 1 else 1))"
| "ddiv _ _ = NaN"

fun dsqrt :: "dbl \<Rightarrow> dbl" where
  "dsqrt (Finite a) = (if a < 0 then NaN else Finite (sqrt a))"
| "dsqrt PosInf = PosInf"
| "dsqrt NegInf = NaN"
| "dsqrt NaN = NaN"

fun dfabs :: "dbl \<Rightarrow> dbl" where
  "dfabs (Finite a) = Finite \<bar>a\<bar>"
| "dfabs PosInf = PosInf"
| "dfabs NegInf = PosInf"
| "dfabs NaN = NaN"

text \<open>Comparisons: every comparison with a NaN is false, \<^verbatim>\<open>!=\<close> apart.\<close>

fun dlt :: "dbl \<Rightarrow> dbl \<Rightarrow> bool" where
  "dlt (Finite a) (Finite b) = (a < b)"
| "dlt NaN _ = False"
| "dlt _ NaN = False"
| "dlt NegInf NegInf = False"
| "dlt NegInf _ = True"
| "dlt PosInf _ = False"
| "dlt (Finite a) PosInf = True"
| "dlt (Finite a) NegInf = False"

definition dgt :: "dbl \<Rightarrow> dbl \<Rightarrow> bool" where
  "dgt a b = dlt b a"

definition deq :: "dbl \<Rightarrow> dbl \<Rightarrow> bool" where
  "deq a b = (a \<noteq> NaN \<and> a = b)"

definition dne :: "dbl \<Rightarrow> dbl \<Rightarrow> bool" where
  "dne a b = (\<not> deq a b)"

text \<open>An \<^verbatim>\<open>int\<close> converted to \<^verbatim>\<open>double\<close>.\<close>

definition dbl_of_int :: "int \<Rightarrow> dbl" where
  "dbl_of_int i = Finite (real_of_int i)"

section \<open>Constants of the missing header\<close>

text \<open>
  \<^verbatim>\<open>ampd_obsolete.c\<close> includes \<^verbatim>\<open>ampd.h\<close>, which is not among the sources. The macros it
  takes from there are parameters of the model: \<^verbatim>\<open>ALPHA\<close>, \<^verbatim>\<open>RAND_FACTOR\<close>,
  \<^verbatim>\<open>TOLERANCE\<close>, \<^verbatim>\<open>IND_THRESH\<close> and \<^verbatim>\<open>TIMESTEP_DEFAULT\<close>.
\<close>

record macros =
  ALPHA :: real
  RAND_FACTOR :: real
  TOLERANCE :: real
  IND_THRESH :: int
  TIMESTEP_DEFAULT :: real

text \<open>A reading outside an allocated vector that the model does not follow further.\<close>

datatype fault = OutOfBounds

section \<open>\<^verbatim>\<open>argmin_minind\<close>\<close>

text \<open>
  \<^verbatim>\<open>
  int argmin_minind(double *data, int n){
      int out = 0;
      double min = data[0];
      for(int i=0; i<n; i++){
          if(data[i] < min){ min = data[i]; out = i; }
      }
      return out;
  }
  \<close>
  The vector is a list. The function reads \<^verbatim>\<open>data[0]\<close> before the loop and
  \<^verbatim>\<open>data[0..n-1]\<close> in it; where one of these lies outside the list the model
  returns the fault.
\<close>

definition argmin_step :: "dbl list \<Rightarrow> dbl \<times> int \<Rightarrow> nat \<Rightarrow> dbl \<times> int" where
  "argmin_step data st i =
     (if dlt (data ! i) (fst st) then (data ! i, int i) else st)"

definition argmin_minind :: "dbl list \<Rightarrow> int \<Rightarrow> fault + int" where
  "argmin_minind data n =
     (if int (length data) < max 1 n then Inl OutOfBounds
      else Inr (snd (foldl (argmin_step data) (data ! 0, 0) [0..<nat n])))"

section \<open>\<^verbatim>\<open>find_peaks\<close>\<close>

text \<open>
  \<^verbatim>\<open>
  #define HARDTRESHOLD_PEAKS 1
  void find_peaks(double *sigma, int n, int *peaks, int *n_peaks){
      int i; int j = 0;
      double tol = TOLERANCE;
      int ind_thresh = IND_THRESH;
      *n_peaks = 0;
      for(i=0; i<n; i++){
          if(sigma[i] < tol){
              if(HARDTRESHOLD_PEAKS == 1){
                  if(i - peaks[j-1] > ind_thresh){
                      peaks[j] = i; j++; (*n_peaks)++;
                  } else { continue; }
              }
          }
      }
  }
  \<close>
  The state of the loop is the list of the indices stored so far, \<^verbatim>\<open>peaks[0..j-1]\<close>;
  \<^verbatim>\<open>j\<close> and \<^verbatim>\<open>*n_peaks\<close> are its length. With \<^verbatim>\<open>j = 0\<close> the test reads
  \<^verbatim>\<open>peaks[-1]\<close>, the \<^verbatim>\<open>int\<close> in front of the buffer: \<open>pre\<close> is the value found there.
  (\<^verbatim>\<open>main\<close> gets the buffer from \<^verbatim>\<open>malloc\<close>; with glibc on a 64-bit machine these four
  bytes are the upper half of the chunk's size field, \<open>0\<close> for every chunk below
  4 GiB.) The subtraction is taken in the integers.
\<close>

definition HARDTRESHOLD_PEAKS :: int where
  "HARDTRESHOLD_PEAKS = 1"

definition peaks_read :: "int \<Rightarrow> int list \<Rightarrow> int" where
  "peaks_read pre peaks = (if peaks = [] then pre else last peaks)"

definition find_peaks_step :: "macros \<Rightarrow> dbl list \<Rightarrow> int \<Rightarrow> int list \<Rightarrow> nat \<Rightarrow> int list" where
  "find_peaks_step c sigma pre peaks i =
     (if dlt (sigma ! i) (Finite (TOLERANCE c)) then
        (if HARDTRESHOLD_PEAKS = 1 then
           (if int i - peaks_read pre peaks > IND_THRESH c then peaks @ [int i] else peaks)
         else peaks)
      else peaks)"

definition find_peaks :: "macros \<Rightarrow> dbl list \<Rightarrow> int \<Rightarrow> int \<Rightarrow> int list" where
  "find_peaks c sigma n pre = foldl (find_peaks_step c sigma pre) [] [0..<nat n]"

section \<open>\<^verbatim>\<open>linear_fit\<close> and \<^verbatim>\<open>linear_detrend\<close>\<close>

text \<open>
  The window is the memory around the pointer \<^verbatim>\<open>data\<close>: a function from the C index to the
  value stored there. The indices \<open>0..n-1\<close> are the samples; an index outside them is
  whatever lies next to the buffer (\<^verbatim>\<open>calc_lms\<close> reads there, see below).
  \<^verbatim>\<open>
  int linear_fit(float *data, int n, double ts, double *a, double *b, double *r){
      double x; double sumx = 0.0; double sumx2 = 0.0; double sumxy = 0.0;
      double sumy = 0.0; double sumy2 = 0.0; double denom;
      for(int i=0; i<n;i++){
          x = (double)i * ts / n;
          sumx += x;
          sumx2 += sqrt(x);
          sumxy += x * data[i];
          sumy += data[i];
          sumy2 += sqrt(data[i]);
      }
      denom = (n * sumx2 - sqrt(sumx));
      if(denom == 0){ *a = 0;*b = 0;*r = 0; return -1; }
      *a = (n * sumxy  -  sumx * sumy) / denom;
      *b = (sumy * sumx2  -  sumx * sumxy) / denom;
      if (r!=NULL) {
          *r = (sumxy - sumx * sumy / n) /
                sqrt((sumx2 - sqrt(sumx)/n) * (sumy2 - sqrt(sumy)/n));
      }
      return 0;
  }
  \<close>
  \<^verbatim>\<open>ampd\<close> always passes a pointer for \<^verbatim>\<open>r\<close>.
\<close>

record fit_sums =
  sumx :: dbl
  sumx2 :: dbl
  sumxy :: dbl
  sumy :: dbl
  sumy2 :: dbl

definition fit_time :: "int \<Rightarrow> real \<Rightarrow> nat \<Rightarrow> dbl" where
  "fit_time n ts i = ddiv (dmul (dbl_of_int (int i)) (Finite ts)) (dbl_of_int n)"

definition fit_step :: "(int \<Rightarrow> dbl) \<Rightarrow> int \<Rightarrow> real \<Rightarrow> fit_sums \<Rightarrow> nat \<Rightarrow> fit_sums" where
  "fit_step data n ts s i =
     (let x = fit_time n ts i in
      \<lparr> sumx = dadd (sumx s) x,
        sumx2 = dadd (sumx2 s) (dsqrt x),
        sumxy = dadd (sumxy s) (dmul x (data (int i))),
        sumy = dadd (sumy s) (data (int i)),
        sumy2 = dadd (sumy2 s) (dsqrt (data (int i))) \<rparr>)"

definition fit_loop :: "(int \<Rightarrow> dbl) \<Rightarrow> int \<Rightarrow> real \<Rightarrow> fit_sums" where
  "fit_loop data n ts =
     foldl (fit_step data n ts)
       \<lparr> sumx = Finite 0, sumx2 = Finite 0, sumxy = Finite 0, sumy = Finite 0, sumy2 = Finite 0 \<rparr>
       [0..<nat n]"

definition fit_denom :: "int \<Rightarrow> fit_sums \<Rightarrow> dbl" where
  "fit_denom n s = dsub (dmul (dbl_of_int n) (sumx2 s)) (dsqrt (sumx s))"

record fit_result =
  fit_ret :: int
  fit_a :: dbl
  fit_b :: dbl
  fit_r :: dbl

definition linear_fit :: "(int \<Rightarrow> dbl) \<Rightarrow> int \<Rightarrow> real \<Rightarrow> fit_result" where
  "linear_fit data n ts =
     (let s = fit_loop data n ts; denom = fit_denom n s in
      if deq denom (Finite 0) then
        \<lparr> fit_ret = - 1, fit_a = Finite 0, fit_b = Finite 0, fit_r = Finite 0 \<rparr>
      else
        \<lparr> fit_ret = 0,
          fit_a = ddiv (dsub (dmul (dbl_of_int n) (sumxy s)) (dmul (sumx s) (sumy s))) denom,
          fit_b = ddiv (dsub (dmul (sumy s) (sumx2 s)) (dmul (sumx s) (sumxy s))) denom,
          fit_r = ddiv (dsub (sumxy s) (ddiv (dmul (sumx s) (sumy s)) (dbl_of_int n)))
                    (dsqrt (dmul (dsub (sumx2 s) (ddiv (dsqrt (sumx s)) (dbl_of_int n)))
                                 (dsub (sumy2 s) (ddiv (dsqrt (sumy s)) (dbl_of_int n))))) \<rparr>)"

text \<open>
  \<^verbatim>\<open>
  int linear_detrend(float *data, int n, double ts, double a, double b){
      for(int i=0; i<n; i++){ data[i] -= a * i * ts / n + b ; }
      return 0;
  }
  \<close>
  Each pass reads and writes \<^verbatim>\<open>data[i]\<close> only, so the loop is one update per index.
\<close>

definition linear_detrend :: "(int \<Rightarrow> dbl) \<Rightarrow> int \<Rightarrow> real \<Rightarrow> dbl \<Rightarrow> dbl \<Rightarrow> (int \<Rightarrow> dbl)" where
  "linear_detrend data n ts a b =
     (\<lambda>i. if 0 \<le> i \<and> i < n
          then dsub (data i)
                 (dadd (ddiv (dmul (dmul a (dbl_of_int i)) (Finite ts)) (dbl_of_int n)) b)
          else data i)"

section \<open>The local maxima scalogram\<close>

text \<open>
  \<^verbatim>\<open>
  void calc_lms(struct Mtx *lms, float *data){
      int i, k; int n, l; float rnd; float a = ALPHA;
      n = lms->cols; l = lms->rows;
      for(i = 0; i<n; i++){
          for(k=0; k<l; k++){
              rnd = (float) rand() / (float)RAND_MAX;
              rnd = rnd * (float)RAND_FACTOR;
              if(i < k){ lms->data[k][i] = rnd + a; continue; }
              if(i>n-k+1){ lms->data[k][i] = rnd + a; continue; }
              if(data[i-1] > data[i-k-1] && data[i-1] > data[i+k-1])
                  lms->data[k][i] = 0.0;
              else
                  lms->data[k][i] = rnd + a;
          }
      }
  }
  \<close>
  The random source is the sequence \<open>s\<close> of the quotients \<^verbatim>\<open>rand() / RAND_MAX\<close>, in the
  order of the calls: the pass for column \<open>i\<close> and row \<open>k\<close> makes call number
  \<open>i * l + k\<close>. Every pass writes its own cell and reads no cell, so the matrix is given
  cell by cell; it is stored as the list of its rows.
\<close>

definition edge_low :: "int \<Rightarrow> int \<Rightarrow> bool" where
  "edge_low i k = (i < k)"

definition edge_high :: "int \<Rightarrow> int \<Rightarrow> int \<Rightarrow> bool" where
  "edge_high n i k = (i > n - k + 1)"

definition noise :: "macros \<Rightarrow> (nat \<Rightarrow> real) \<Rightarrow> int \<Rightarrow> int \<Rightarrow> int \<Rightarrow> dbl" where
  "noise c s l k i = Finite (s (nat (i * l + k)) * RAND_FACTOR c + ALPHA c)"

definition local_max :: "(int \<Rightarrow> dbl) \<Rightarrow> int \<Rightarrow> int \<Rightarrow> bool" where
  "local_max data k i =
     (dgt (data (i - 1)) (data (i - k - 1)) \<and> dgt (data (i - 1)) (data (i + k - 1)))"

definition lms_cell :: "macros \<Rightarrow> (nat \<Rightarrow> real) \<Rightarrow> (int \<Rightarrow> dbl) \<Rightarrow> int \<Rightarrow> int \<Rightarrow> int \<Rightarrow> int \<Rightarrow> dbl" where
  "lms_cell c s data n l k i =
     (if edge_low i k then noise c s l k i
      else if edge_high n i k then noise c s l k i
      else if local_max data k i then Finite 0
      else noise c s l k i)"

definition calc_lms :: "macros \<Rightarrow> (nat \<Rightarrow> real) \<Rightarrow> (int \<Rightarrow> dbl) \<Rightarrow> int \<Rightarrow> int \<Rightarrow> dbl list list" where
  "calc_lms c s data n l =
     map (\<lambda>k. map (\<lambda>i. lms_cell c s data n l (int k) (int i)) [0..<nat n]) [0..<nat l]"

text \<open>
  \<^verbatim>\<open>
  void row_sum_lms(struct Mtx *lms, double *gamma){
      for(k=0; k<l; k++){
          gamma[k] = 0.0;
          for(i=0; i<n; i++){ gamma[k] += lms->data[k][i]; }
      }
  }
  \<close>
\<close>

definition row_sum_lms :: "dbl list list \<Rightarrow> dbl list" where
  "row_sum_lms lms = map (\<lambda>row. foldl dadd (Finite 0) row) lms"

text \<open>
  \<^verbatim>\<open>
  void col_stddev_lms(struct Mtx *lms, double *sigma, int lambda){
      int n = lms->cols; double l = (double)lambda;
      for(i=0; i<n; i++){
          sigma[i] = 0.0; sum_m_i = 0.0;
          for(k=0; k<lambda; k++){ sum_m_i += lms->data[k][i] / l; }
          for(k=0; k<lambda; k++){
              sigma[i] += fabs((lms->data[k][i]-sum_m_i)) / (l-1.0);
          }
      }
  }
  \<close>
\<close>

definition col_mean :: "dbl list list \<Rightarrow> int \<Rightarrow> nat \<Rightarrow> dbl" where
  "col_mean lms lambda i =
     foldl (\<lambda>sum_m_i k. dadd sum_m_i (ddiv (lms ! k ! i) (dbl_of_int lambda)))
       (Finite 0) [0..<nat lambda]"

definition col_dev :: "dbl list list \<Rightarrow> int \<Rightarrow> nat \<Rightarrow> dbl" where
  "col_dev lms lambda i =
     foldl (\<lambda>sig k. dadd sig (ddiv (dfabs (dsub (lms ! k ! i) (col_mean lms lambda i)))
                                  (dsub (dbl_of_int lambda) (Finite 1))))
       (Finite 0) [0..<nat lambda]"

definition col_stddev_lms :: "dbl list list \<Rightarrow> int \<Rightarrow> int \<Rightarrow> dbl list" where
  "col_stddev_lms lms n lambda = map (col_dev lms lambda) [0..<nat n]"

section \<open>\<^verbatim>\<open>ampd\<close>: one window\<close>

text \<open>
  \<^verbatim>\<open>
  int ampd(float *data, int n, struct Mtx *lms,
           double *gamma, double *sigma, int *peaks, double *a, double *b){
      double r = 0; double ts = TIMESTEP_DEFAULT;
      int l; int n_peaks = 0; int lambda;
      *a = 0; *b = 0;
      l = (int)ceil(n / 2) - 1;
      linear_fit(data, n, ts, a, b, &r);
      if(r != r){ return -1; }
      linear_detrend(data, n, ts, *a, *b);
      calc_lms(lms, data);
      row_sum_lms(lms, gamma);
      lambda = argmin_minind(gamma, l);
      col_stddev_lms(lms, sigma, lambda);
      find_peaks(sigma, n, peaks, &n_peaks);
      return n_peaks;
  }
  \<close>
  \<^verbatim>\<open>n / 2\<close> is the division of C \<^verbatim>\<open>int\<close>s, which truncates towards zero, and \<^verbatim>\<open>ceil\<close> of
  its value changes nothing. The matrix is the one \<^verbatim>\<open>main\<close> allocates for the call,
  \<^verbatim>\<open>malloc_mtx(l, n)\<close> with the same \<open>l\<close>, and \<^verbatim>\<open>gamma\<close> and \<^verbatim>\<open>sigma\<close> are the vectors of
  \<open>l\<close> and \<open>n\<close> entries it allocates. The value of \<^verbatim>\<open>linear_fit\<close> is dropped: only
  \<^verbatim>\<open>r\<close> is tested. The result is the returned \<^verbatim>\<open>int\<close> with the indices left in
  \<^verbatim>\<open>peaks\<close>; \<open>s\<close> is the random sequence of \<^verbatim>\<open>calc_lms\<close> and \<open>pre\<close> the value in
  front of the buffer \<^verbatim>\<open>peaks\<close> that \<^verbatim>\<open>find_peaks\<close> reads.
\<close>

definition c_div :: "int \<Rightarrow> int \<Rightarrow> int" where
  "c_div a b = sgn a * sgn b * (\<bar>a\<bar> div \<bar>b\<bar>)"

definition scales :: "int \<Rightarrow> int" where
  "scales n = c_div n 2 - 1"

definition ampd :: "macros \<Rightarrow> (nat \<Rightarrow> real) \<Rightarrow> int \<Rightarrow> (int \<Rightarrow> dbl) \<Rightarrow> int \<Rightarrow> fault + (int \<times> int list)" where
  "ampd c s pre data n =
     (let ts = TIMESTEP_DEFAULT c;
          l = scales n;
          fit = linear_fit data n ts
      in if dne (fit_r fit) (fit_r fit) then Inr (- 1, [])
         else
           let data' = linear_detrend data n ts (fit_a fit) (fit_b fit);
               lms = calc_lms c s data' n l;
               gamma = row_sum_lms lms
           in case argmin_minind gamma l of
                Inl f \<Rightarrow> Inl f
              | Inr lambda \<Rightarrow>
                  let sigma = col_stddev_lms lms n lambda;
                      peaks = find_peaks c sigma n pre
                  in Inr (int (length peaks), peaks))"

section \<open>The batch loop of \<^verbatim>\<open>main\<close>\<close>

text \<open>
  \<^verbatim>\<open>
  #define TESTING 1
  ...
  sum_n_peaks = 0;
  datalen = count_char(infile, ...);
  n_ovlap = (int)((double)data_buf * overlap);
  cycles = (int) (ceil(datalen / (double) (data_buf - n_ovlap)));
  ...
  for(int i=0; i<cycles; i++){
      if(TESTING == 1){ if(i>0) break; }
      ...
      ind = i * (int)(data_buf - n_ovlap);
      if(i == cycles-1){
          break; //TODO del test
          n = datalen - i * (int)data_buf;
      }
      else { n = (int)data_buf; }
      data = malloc(sizeof(float)*n);
      fetch_data(infile, data, n, ind);
      ...
      n_peaks = ampd(data, n, lms, gamma, sigma, peaks, &a, &b);
      sum_n_peaks += (int)(n_peaks * (1.0-overlap));
      ...
  }
  fprintf(stdout, "%d\n", sum_n_peaks);
  \<close>
  The options are \<^verbatim>\<open>data_buf\<close> and \<^verbatim>\<open>overlap\<close>: the field \<open>overlap\<close> is the number
  written after \<^verbatim>\<open>-p\<close> (or in the macro \<^verbatim>\<open>OVERLAP_DEF\<close>), a finite number, at most 1
  after the check of the option, and \<open>overlap_dbl\<close> is the \<^verbatim>\<open>double\<close> the program holds
  for it. \<open>run_ampd ind n\<close> stands for the value \<^verbatim>\<open>ampd\<close> returns on the \<open>n\<close> samples
  \<^verbatim>\<open>fetch_data\<close> loads from line \<open>ind\<close> of the file. The state of the loop is the list
  of the windows handed to \<^verbatim>\<open>ampd\<close> so far, as pairs of \<^verbatim>\<open>ind\<close> and \<^verbatim>\<open>n\<close>, and
  \<^verbatim>\<open>sum_n_peaks\<close>. A cast to \<^verbatim>\<open>int\<close> truncates towards zero. With
  \<^verbatim>\<open>data_buf = n_ovlap\<close> the quotient is infinite or a NaN and its cast to \<^verbatim>\<open>int\<close> is
  undefined: \<open>cycles\<close> has no value there.

  The three expressions on \<^verbatim>\<open>double\<close>s here decide integers, so their rounding is part
  of the model. \<open>round_double x\<close> is the \<^verbatim>\<open>double\<close> nearest to \<open>x\<close>, as IEEE 754 binary64
  arithmetic in its default mode returns it for an exact result \<open>x\<close>, and as \<^verbatim>\<open>atof\<close>
  and the compiler convert a decimal number: \<open>x\<close> lies in the binade
  \<open>2^e \<le> |x| < 2^(e+1)\<close> (\<open>e\<close> not below \<open>-1022\<close>, where the subnormal numbers begin), the
  \<^verbatim>\<open>double\<close>s there are the multiples of \<open>2^(e-52)\<close>, and the nearest one is taken, the
  one with the even multiplier at a tie. An \<^verbatim>\<open>int\<close> converts to \<^verbatim>\<open>double\<close> without
  rounding. Results beyond the largest \<^verbatim>\<open>double\<close> (overflow) are left out, and so is
  the cast of a value outside the range of \<^verbatim>\<open>int\<close>, which C leaves undefined.
\<close>

definition pow2 :: "int \<Rightarrow> real" where
  "pow2 e = (if 0 \<le> e then 2 ^ nat e else 1 / 2 ^ nat (- e))"

definition round_even :: "real \<Rightarrow> int" where
  "round_even m =
     (let f = \<lfloor>m\<rfloor> in
      if m - real_of_int f < 1 / 2 then f
      else if 1 / 2 < m - real_of_int f then f + 1
      else if even f then f else f + 1)"

definition double_exp :: "real \<Rightarrow> int" where
  "double_exp x = max \<lfloor>log 2 \<bar>x\<bar>\<rfloor> (- 1022)"

definition round_double :: "real \<Rightarrow> real" where
  "round_double x =
     (if x = 0 then 0
      else real_of_int (round_even (x / pow2 (double_exp x - 52))) * pow2 (double_exp x - 52))"

definition TESTING :: int where
  "TESTING = 1"

record options =
  data_buf :: int
  overlap :: real

record batch_state =
  windows :: "(int \<times> int) list"
  sum_n_peaks :: int

definition int_cast :: "real \<Rightarrow> int" where
  "int_cast x = (if 0 \<le> x then \<lfloor>x\<rfloor> else \<lceil>x\<rceil>)"

definition overlap_dbl :: "options \<Rightarrow> real" where
  "overlap_dbl opts = round_double (overlap opts)"

definition n_ovlap :: "options \<Rightarrow> int" where
  "n_ovlap opts = int_cast (round_double (real_of_int (data_buf opts) * overlap_dbl opts))"

definition cycles :: "options \<Rightarrow> int \<Rightarrow> int option" where
  "cycles opts datalen =
     (if data_buf opts - n_ovlap opts = 0 then None
      else Some (int_cast (real_of_int
             \<lceil>round_double
                (real_of_int datalen / real_of_int (data_buf opts - n_ovlap opts))\<rceil>)))"

function batch_loop ::
  "(int \<Rightarrow> int \<Rightarrow> int) \<Rightarrow> options \<Rightarrow> int \<Rightarrow> int \<Rightarrow> batch_state \<Rightarrow> batch_state" where
  "batch_loop run_ampd opts cyc i st =
     (if i < cyc then
        (if TESTING = 1 \<and> i > 0 then st
         else
           let ind = i * (data_buf opts - n_ovlap opts) in
           if i = cyc - 1 then st
           else
             let n = data_buf opts;
                 n_peaks = run_ampd ind n
             in batch_loop run_ampd opts cyc (i + 1)
                  \<lparr> windows = windows st @ [(ind, n)],
                    sum_n_peaks = sum_n_peaks st
                      + int_cast (round_double
                          (real_of_int n_peaks * round_double (1 - overlap_dbl opts))) \<rparr>)
      else st)"
  by pat_completeness auto
termination
  by (relation "measure (\<lambda>(run_ampd, opts, cyc, i, st). nat (cyc - i))") auto

definition batch_run :: "(int \<Rightarrow> int \<Rightarrow> int) \<Rightarrow> options \<Rightarrow> int \<Rightarrow> batch_state option" where
  "batch_run run_ampd opts datalen =
     (case cycles opts datalen of
        None \<Rightarrow> None
      | Some cyc \<Rightarrow> Some (batch_loop run_ampd opts cyc 0 \<lparr> windows = [], sum_n_peaks = 0 \<rparr>))"

section \<open>Inputs for the evaluations\<close>

text \<open>
  A choice of the header's macros. \<open>window_mem before xs after\<close> is a memory that holds
  the samples \<open>xs\<close> at the indices from \<open>0\<close>, \<open>before\<close> below them and \<open>after\<close> above.
  \<open>const_peaks p\<close> is a file on every window of which \<^verbatim>\<open>ampd\<close> returns \<open>p\<close>.
\<close>

definition test_macros :: macros where
  "test_macros =
     \<lparr> ALPHA = 1, RAND_FACTOR = 1, TOLERANCE = 1 / 100, IND_THRESH = 1, TIMESTEP_DEFAULT = 6 \<rparr>"

definition window_mem :: "dbl \<Rightarrow> real list \<Rightarrow> dbl \<Rightarrow> int \<Rightarrow> dbl" where
  "window_mem before xs after j =
     (if j < 0 then before
      else if int (length xs) \<le> j then after
      else Finite (xs ! nat j))"

definition const_peaks :: "int \<Rightarrow> int \<Rightarrow> int \<Rightarrow> int" where
  "const_peaks p ind n = p"

text \<open>
  Three random sequences: every draw \<open>0\<close>; the draws \<open>0\<close> and \<open>1\<close> in turn; the draws
  \<open>1\<close> and \<open>0\<close> in turn. With two rows the calls of even number fill row 0 and those
  of odd number row 1.
\<close>

definition zero_draws :: "nat \<Rightarrow> real" where
  "zero_draws j = 0"

definition low_high_draws :: "nat \<Rightarrow> real" where
  "low_high_draws j = (if even j then 0 else 1)"

definition high_low_draws :: "nat \<Rightarrow> real" where
  "high_low_draws j = (if even j then 1 else 0)"

text \<open>A window of six samples, all of them 1, with 1 on both sides of it.\<close>

definition flat6 :: "int \<Rightarrow> dbl" where
  "flat6 = window_mem (Finite 1) [1, 1, 1, 1, 1, 1] (Finite 1)"

text \<open>
  The spec's measure for the fit, in its words: the sum of the squared residuals of the
  line \<open>y = a * t + b\<close> against the samples \<open>ys\<close> of the window, over the time axis
  \<open>t_i = i * ts / n\<close>.
\<close>

definition spec_residual_sum :: "real \<Rightarrow> real list \<Rightarrow> real \<Rightarrow> real \<Rightarrow> real" where
  "spec_residual_sum ts ys a b =
     (\<Sum>i<length ys. (a * (real i * ts / real (length ys)) + b - ys ! i)\<^sup>2)"

section \<open>Properties of the batch loop\<close>

declare batch_loop.simps [simp del]

text \<open>Evaluating \<open>round_double\<close>: the binade of the argument fixes the spacing.\<close>

lemma pow2_powr: "pow2 e = 2 powr real_of_int e"
  by (simp add: pow2_def powr_real_of_int field_simps)

lemma double_exp_eq:
  assumes "pow2 e \<le> \<bar>x\<bar>" "\<bar>x\<bar> < pow2 (e + 1)" "- 1022 \<le> e"
  shows "double_exp x = e"
proof -
  have pos: "0 < \<bar>x\<bar>"
    using assms(1) by (simp add: pow2_powr) (smt (verit) powr_gt_zero)
  have "\<lfloor>log 2 \<bar>x\<bar>\<rfloor> = e"
    using assms(1,2) pos by (simp add: floor_log_eq_powr_iff pow2_powr)
  then show ?thesis
    using assms(3) by (simp add: double_exp_def)
qed

lemma round_double_eval:
  assumes "pow2 e \<le> \<bar>x\<bar>" "\<bar>x\<bar> < pow2 (e + 1)" "- 1022 \<le> e"
  shows "round_double x = real_of_int (round_even (x / pow2 (e - 52))) * pow2 (e - 52)"
proof -
  have "x \<noteq> 0"
    using assms(1) by (simp add: pow2_powr) (smt (verit) powr_gt_zero)
  then show ?thesis
    by (simp add: round_double_def double_exp_eq [OF assms])
qed

lemma round_double_half: "round_double (1 / 2) = 1 / 2"
  by (subst round_double_eval [where e = "- 1"]) (simp_all add: pow2_def round_even_def)

lemma round_double_1: "round_double 1 = 1"
  by (subst round_double_eval [where e = 0]) (simp_all add: pow2_def round_even_def)

lemma round_double_3_2: "round_double (3 / 2) = 3 / 2"
  by (subst round_double_eval [where e = 0]) (simp_all add: pow2_def round_even_def)

lemma round_double_10: "round_double 10 = 10"
  by (subst round_double_eval [where e = 3]) (simp_all add: pow2_def round_even_def)

lemma round_double_100: "round_double 100 = 100"
  by (subst round_double_eval [where e = 6]) (simp_all add: pow2_def round_even_def)

lemma batch_loop_sum:
  "sum_n_peaks st =
     sum_list (map (\<lambda>(ind, n). int_cast (round_double
         (real_of_int (run_ampd ind n) * round_double (1 - overlap_dbl opts))))
       (windows st))
   \<Longrightarrow> sum_n_peaks (batch_loop run_ampd opts cyc i st) =
       sum_list (map (\<lambda>(ind, n). int_cast (round_double
           (real_of_int (run_ampd ind n) * round_double (1 - overlap_dbl opts))))
          (windows (batch_loop run_ampd opts cyc i st)))"
proof (induction run_ampd opts cyc i st rule: batch_loop.induct)
  case (1 run_ampd opts cyc i st)
  show ?case
  proof (cases "i < cyc \<and> \<not> (TESTING = 1 \<and> i > 0) \<and> i \<noteq> cyc - 1")
    case True
    then show ?thesis
      using 1 by (subst (1 2) batch_loop.simps) (simp add: Let_def)
  next
    case False
    then show ?thesis
      using 1(2) by (subst (1 2) batch_loop.simps) (auto simp: Let_def)
  qed
qed

text \<open>Whatever the file and the options, the loop hands at most one window to \<^verbatim>\<open>ampd\<close>.\<close>

lemma batch_loop_at_most_one_window:
  "length (windows (batch_loop run_ampd opts cyc 0 \<lparr> windows = [], sum_n_peaks = 0 \<rparr>)) \<le> 1"
  by (simp add: batch_loop.simps[of _ _ _ 0] batch_loop.simps[of _ _ _ 1] TESTING_def Let_def)

text \<open>The options of the evaluations: windows of 200 samples, overlap 0.5.\<close>

lemma n_ovlap_200_half: "n_ovlap \<lparr> data_buf = 200, overlap = 1 / 2 \<rparr> = 100"
  by (simp add: n_ovlap_def overlap_dbl_def round_double_half round_double_100 int_cast_def)

lemma cycles_200_half:
  "cycles \<lparr> data_buf = 200, overlap = 1 / 2 \<rparr> 1000 = Some 10"
  "cycles \<lparr> data_buf = 200, overlap = 1 / 2 \<rparr> 100 = Some 1"
  by (simp_all add: cycles_def n_ovlap_200_half round_double_10 round_double_1 int_cast_def)

text \<open>
  C1. The claim: the driver computes \<open>numWindows = ceil(len / stride)\<close> and calls the
  engine once for every window \<open>0..numWindows-1\<close>. The count is computed as claimed, but
  the loop does not go through it. On a file of 1000 lines with windows of 200 samples
  and overlap 0.5 the count is 10 and \<^verbatim>\<open>ampd\<close> is called for the window at 0 alone: the
  pass for \<open>i = 1\<close> leaves the loop at \<^verbatim>\<open>TESTING == 1\<close>. On a file of 100 lines the count
  is 1 and \<^verbatim>\<open>ampd\<close> is not called at all: the pass for the last window leaves the loop
  at the \<^verbatim>\<open>break\<close> marked \<^verbatim>\<open>//TODO del test\<close>.
\<close>

theorem batch_run_stops_after_first_window:
  "cycles \<lparr> data_buf = 200, overlap = 1 / 2 \<rparr> 1000 = Some 10
   \<and> map_option windows (batch_run run_ampd \<lparr> data_buf = 200, overlap = 1 / 2 \<rparr> 1000)
       = Some [(0, 200)]
   \<and> cycles \<lparr> data_buf = 200, overlap = 1 / 2 \<rparr> 100 = Some 1
   \<and> map_option windows (batch_run run_ampd \<lparr> data_buf = 200, overlap = 1 / 2 \<rparr> 100)
       = Some []"
  by (simp add: batch_run_def cycles_200_half n_ovlap_200_half Let_def TESTING_def
      batch_loop.simps[of _ _ _ 0] batch_loop.simps[of _ _ _ 1])

text \<open>
  Two runs in which the rounding decides the integer, each on a file of 1000 lines with
  windows of 200 samples and 10 peaks in the window. With \<^verbatim>\<open>-p 0.9\<close> the \<^verbatim>\<open>double\<close>
  \<^verbatim>\<open>1.0 - overlap\<close> lies below 0.1, its product with 10 below 1, and the loop adds 0.
  With \<^verbatim>\<open>-p 0.1\<close> the product is rounded to 9 and the loop adds 9.
\<close>

lemma round_double_9_10: "round_double (9 / 10) = 8106479329266893 / 9007199254740992"
  by (subst round_double_eval [where e = "- 1"]) (simp_all add: pow2_def round_even_def)

lemma overlap_dbl_9_10:
  "overlap_dbl \<lparr> data_buf = 200, overlap = 9 / 10 \<rparr> = 8106479329266893 / 9007199254740992"
  by (simp add: overlap_dbl_def round_double_9_10)

lemma n_ovlap_200_9_10: "n_ovlap \<lparr> data_buf = 200, overlap = 9 / 10 \<rparr> = 180"
proof -
  have "round_double (real_of_int 200 * (8106479329266893 / 9007199254740992)) = 180"
    by (subst round_double_eval [where e = 7]) (simp_all add: pow2_def round_even_def)
  then show ?thesis
    unfolding n_ovlap_def overlap_dbl_9_10 by (simp add: int_cast_def)
qed

lemma round_double_50: "round_double 50 = 50"
  by (subst round_double_eval [where e = 5]) (simp_all add: pow2_def round_even_def)

lemma cycles_200_9_10: "cycles \<lparr> data_buf = 200, overlap = 9 / 10 \<rparr> 1000 = Some 50"
  by (simp add: cycles_def n_ovlap_200_9_10 round_double_50 int_cast_def)

lemma share_9_10:
  "int_cast (round_double (real_of_int 10 *
      round_double (1 - overlap_dbl \<lparr> data_buf = 200, overlap = 9 / 10 \<rparr>))) = 0"
proof -
  have 1: "round_double (1 - 8106479329266893 / 9007199254740992)
      = 900719925474099 / 9007199254740992"
    by (subst round_double_eval [where e = "- 4"]) (simp_all add: pow2_def round_even_def)
  have 2: "round_double (real_of_int 10 * (900719925474099 / 9007199254740992))
      = 4503599627370495 / 4503599627370496"
    by (subst round_double_eval [where e = "- 1"]) (simp_all add: pow2_def round_even_def)
  show ?thesis
    unfolding overlap_dbl_9_10 1 2 by (simp add: int_cast_def)
qed

lemma batch_run_9_10:
  "batch_run (const_peaks 10) \<lparr> data_buf = 200, overlap = 9 / 10 \<rparr> 1000
     = Some \<lparr> windows = [(0, 200)], sum_n_peaks = 0 \<rparr>"
  using share_9_10
  by (simp add: batch_run_def cycles_200_9_10 n_ovlap_200_9_10 Let_def TESTING_def
      batch_loop.simps[of _ _ _ 0] batch_loop.simps[of _ _ _ 1] const_peaks_def)

lemma round_double_1_10: "round_double (1 / 10) = 3602879701896397 / 36028797018963968"
  by (subst round_double_eval [where e = "- 4"]) (simp_all add: pow2_def round_even_def)

lemma overlap_dbl_1_10:
  "overlap_dbl \<lparr> data_buf = 200, overlap = 1 / 10 \<rparr> = 3602879701896397 / 36028797018963968"
  by (simp add: overlap_dbl_def round_double_1_10)

lemma n_ovlap_200_1_10: "n_ovlap \<lparr> data_buf = 200, overlap = 1 / 10 \<rparr> = 20"
proof -
  have "round_double (real_of_int 200 * (3602879701896397 / 36028797018963968)) = 20"
    by (subst round_double_eval [where e = 4]) (simp_all add: pow2_def round_even_def)
  then show ?thesis
    unfolding n_ovlap_def overlap_dbl_1_10 by (simp add: int_cast_def)
qed

lemma cycles_200_1_10: "cycles \<lparr> data_buf = 200, overlap = 1 / 10 \<rparr> 1000 = Some 6"
proof -
  have "\<lceil>round_double (real_of_int 1000 / real_of_int (200 - 20))\<rceil> = 6"
    by (subst round_double_eval [where e = 2]) (simp_all add: pow2_def round_even_def)
  then show ?thesis
    by (simp add: cycles_def n_ovlap_200_1_10 int_cast_def)
qed

lemma share_1_10:
  "int_cast (round_double (real_of_int 10 *
      round_double (1 - overlap_dbl \<lparr> data_buf = 200, overlap = 1 / 10 \<rparr>))) = 9"
proof -
  have 1: "round_double (1 - 3602879701896397 / 36028797018963968)
      = 8106479329266893 / 9007199254740992"
    by (subst round_double_eval [where e = "- 1"]) (simp_all add: pow2_def round_even_def)
  have 2: "round_double (real_of_int 10 * (8106479329266893 / 9007199254740992)) = 9"
    by (subst round_double_eval [where e = 3]) (simp_all add: pow2_def round_even_def)
  show ?thesis
    unfolding overlap_dbl_1_10 1 2 by (simp add: int_cast_def)
qed

lemma batch_run_1_10:
  "batch_run (const_peaks 10) \<lparr> data_buf = 200, overlap = 1 / 10 \<rparr> 1000
     = Some \<lparr> windows = [(0, 200)], sum_n_peaks = 9 \<rparr>"
  using share_1_10
  by (simp add: batch_run_def cycles_200_1_10 n_ovlap_200_1_10 Let_def TESTING_def
      batch_loop.simps[of _ _ _ 0] batch_loop.simps[of _ _ _ 1] const_peaks_def)

text \<open>
  C2, as stated: every processed window adds \<open>round(peakCount * (1 - overlapRatio))\<close> to
  the total. It fails on a window with 3 peaks and overlap 0.5: the product is 1.5, its
  rounding is 2, and the loop adds 1.
\<close>

theorem batch_sum_not_rounded:
  "map_option sum_n_peaks
     (batch_run (const_peaks 3) \<lparr> data_buf = 200, overlap = 1 / 2 \<rparr> 1000) = Some 1
   \<and> map_option windows
     (batch_run (const_peaks 3) \<lparr> data_buf = 200, overlap = 1 / 2 \<rparr> 1000) = Some [(0, 200)]
   \<and> round (real_of_int (const_peaks 3 0 200) * (1 - 1 / 2)) = 2"
  by (simp add: batch_run_def cycles_200_half n_ovlap_200_half Let_def TESTING_def
      batch_loop.simps[of _ _ _ 0] batch_loop.simps[of _ _ _ 1] const_peaks_def round_def
      overlap_dbl_def round_double_half round_double_3_2 int_cast_def)

text \<open>
  C2, amended: every window handed to \<^verbatim>\<open>ampd\<close> adds the value of
  \<^verbatim>\<open>(int)(n_peaks * (1.0 - overlap))\<close>: the product of \<^verbatim>\<open>double\<close>s, each operation rounded
  to the nearest \<^verbatim>\<open>double\<close>, truncated towards zero by the cast. \<open>n_peaks\<close> is what
  \<^verbatim>\<open>ampd\<close> returned for the window; the printed total is the sum of these values over
  the windows processed.
\<close>

theorem batch_sum_truncated:
  assumes "batch_run run_ampd opts datalen = Some st"
  shows "sum_n_peaks st =
     sum_list (map (\<lambda>(ind, n). int_cast (round_double
         (real_of_int (run_ampd ind n) * round_double (1 - overlap_dbl opts))))
       (windows st))"
proof -
  from assms obtain cyc where
    st: "st = batch_loop run_ampd opts cyc 0 \<lparr> windows = [], sum_n_peaks = 0 \<rparr>"
    by (auto simp: batch_run_def split: option.splits)
  show ?thesis
    unfolding st by (rule batch_loop_sum) simp
qed

theorem batch_sum_truncated_witness:
  "batch_run (const_peaks 10) \<lparr> data_buf = 200, overlap = 9 / 10 \<rparr> 1000
     = Some \<lparr> windows = [(0, 200)], sum_n_peaks = 0 \<rparr>
   \<and> sum_n_peaks \<lparr> windows = [(0, 200)], sum_n_peaks = 0 \<rparr> =
     sum_list (map (\<lambda>(ind, n). int_cast (round_double
         (real_of_int (const_peaks 10 ind n)
            * round_double (1 - overlap_dbl \<lparr> data_buf = 200, overlap = 9 / 10 \<rparr>))))
       (windows \<lparr> windows = [(0, 200)], sum_n_peaks = 0 \<rparr>))"
  using batch_run_9_10 batch_sum_truncated [OF batch_run_9_10] by blast

section \<open>Properties of \<^verbatim>\<open>find_peaks\<close>\<close>

lemma find_peaks_Suc:
  "find_peaks c sigma (int (Suc m)) pre =
     find_peaks_step c sigma pre (find_peaks c sigma (int m) pre) m"
  unfolding find_peaks_def nat_int by simp

text \<open>
  C4. The claim: the first candidate is always accepted, and no prior peak is read while
  there is none. The code has no case for the empty start: the test of the first
  candidate reads \<^verbatim>\<open>peaks[-1]\<close>. With \<open>0\<close> in front of the buffer the candidate at index
  0 (the only one of the window below) is rejected and no peak is returned; with \<open>-2\<close>
  there it is accepted.
\<close>

theorem find_peaks_first_candidate_rejected:
  "dlt ([Finite 0, Finite 5, Finite 5] ! 0) (Finite (TOLERANCE test_macros))
   \<and> find_peaks test_macros [Finite 0, Finite 5, Finite 5] 3 0 = []
   \<and> find_peaks test_macros [Finite 0, Finite 5, Finite 5] 3 (- 2) = [0]"
  by (simp add: find_peaks_def find_peaks_step_def test_macros_def peaks_read_def
      HARDTRESHOLD_PEAKS_def upt_rec numeral_3_eq_3)

text \<open>
  C5. Whatever the vector \<open>sigma\<close> and whatever lies in front of the buffer, the indices
  \<^verbatim>\<open>find_peaks\<close> returns are strictly increasing, each of them is an index \<open>i\<close> of the
  window with \<open>sigma[i] < TOLERANCE\<close>, and each is more than \<open>IND_THRESH\<close> above the one
  before it.
\<close>

theorem find_peaks_increasing_and_spaced:
  "sorted_wrt (<) (find_peaks c sigma (int m) pre) \<and>
   list_all (\<lambda>p. 0 \<le> p \<and> p < int m \<and> dlt (sigma ! nat p) (Finite (TOLERANCE c)))
     (find_peaks c sigma (int m) pre) \<and>
   successively (\<lambda>p q. q - p > IND_THRESH c) (find_peaks c sigma (int m) pre)"
proof (induction m)
  case 0
  show ?case by (simp add: find_peaks_def)
next
  case (Suc m)
  let ?ps = "find_peaks c sigma (int m) pre"
  let ?ok = "\<lambda>b p. 0 \<le> p \<and> p < b \<and> dlt (sigma ! nat p) (Finite (TOLERANCE c))"
  from Suc have s: "sorted_wrt (<) ?ps"
    and a: "list_all (?ok (int m)) ?ps"
    and d: "successively (\<lambda>p q. q - p > IND_THRESH c) ?ps" by simp_all
  from a have a': "list_all (?ok (int (Suc m))) ?ps"
    by (auto simp: list_all_iff)
  from a have lt: "\<forall>p\<in>set ?ps. p < int m"
    by (auto simp: list_all_iff)
  show ?case
    unfolding find_peaks_Suc find_peaks_step_def
    using s a' d lt
    by (auto simp: sorted_wrt_append successively_append_iff peaks_read_def list_all_iff)
qed

section \<open>Properties of \<^verbatim>\<open>argmin_minind\<close>\<close>

lemma dlt_irrefl: "\<not> dlt a a"
  by (cases a) auto

lemma dlt_trans: "dlt a b \<Longrightarrow> dlt b c \<Longrightarrow> dlt a c"
  by (cases a; cases b; cases c) auto

lemma argmin_loop:
  assumes "data \<noteq> []" "NaN \<notin> set data" "m \<le> length data"
  shows "\<exists>out. foldl (argmin_step data) (data ! 0, 0) [0..<m] = (data ! out, int out) \<and>
     out < max 1 m \<and> (\<forall>j<m. \<not> dlt (data ! j) (data ! out)) \<and>
     (\<forall>j<out. dlt (data ! out) (data ! j))"
  using assms(3)
proof (induction m)
  case 0
  show ?case by simp
next
  case (Suc m)
  then obtain out where o:
     "foldl (argmin_step data) (data ! 0, 0) [0..<m] = (data ! out, int out)"
     "out < max 1 m" "\<forall>j<m. \<not> dlt (data ! j) (data ! out)"
     "\<forall>j<out. dlt (data ! out) (data ! j)"
    by auto
  have nn: "\<And>j. j < length data \<Longrightarrow> data ! j \<noteq> NaN"
    using assms(2) by (metis nth_mem)
  show ?case
  proof (cases "dlt (data ! m) (data ! out)")
    case True
    have st: "foldl (argmin_step data) (data ! 0, 0) [0..<Suc m] = (data ! m, int m)"
      using o(1) True by (simp add: argmin_step_def)
    have 1: "\<forall>j<Suc m. \<not> dlt (data ! j) (data ! m)"
    proof (intro allI impI)
      fix j assume "j < Suc m"
      show "\<not> dlt (data ! j) (data ! m)"
      proof
        assume lt: "dlt (data ! j) (data ! m)"
        then have "dlt (data ! j) (data ! out)"
          using True dlt_trans by blast
        moreover have "j \<noteq> m"
          using lt dlt_irrefl by auto
        ultimately show False
          using o(3) \<open>j < Suc m\<close> by (simp add: less_Suc_eq)
      qed
    qed
    have 2: "\<forall>j<m. dlt (data ! m) (data ! j)"
    proof (intro allI impI)
      fix j assume jm: "j < m"
      then have "\<not> dlt (data ! j) (data ! out)"
        using o(3) by simp
      moreover have "data ! j \<noteq> NaN" "data ! out \<noteq> NaN" "data ! m \<noteq> NaN"
        using nn jm Suc.prems o(2) by auto
      ultimately show "dlt (data ! m) (data ! j)"
        using True by (cases "data ! j"; cases "data ! out"; cases "data ! m") auto
    qed
    show ?thesis
      using st 1 2 by (intro exI[of _ m]) auto
  next
    case False
    have st: "foldl (argmin_step data) (data ! 0, 0) [0..<Suc m] = (data ! out, int out)"
      using o(1) False by (simp add: argmin_step_def)
    show ?thesis
      using st o False by (intro exI[of _ out]) (auto simp: less_Suc_eq)
  qed
qed

text \<open>
  C6. For a vector \<open>gamma\<close> of \<open>L \<ge> 1\<close> entries, none of them a NaN, \<^verbatim>\<open>argmin_minind\<close>
  returns an index \<open>lambda\<close> with \<open>0 \<le> lambda < L\<close> such that no entry is below
  \<open>gamma[lambda]\<close> and every entry before \<open>lambda\<close> is above it: the first index of the
  minimum. (The row sums of a scalogram are sums of finite cells, so no NaN occurs in
  the vector \<^verbatim>\<open>ampd\<close> passes: \<open>row_sum_lms_never_NaN\<close> below.)
\<close>

theorem argmin_minind_first_minimum:
  assumes "gamma \<noteq> []" and "NaN \<notin> set gamma"
  shows "\<exists>lambda. argmin_minind gamma (int (length gamma)) = Inr lambda
     \<and> 0 \<le> lambda \<and> lambda < int (length gamma)
     \<and> (\<forall>j < length gamma. \<not> dlt (gamma ! j) (gamma ! nat lambda))
     \<and> (\<forall>j < nat lambda. dlt (gamma ! nat lambda) (gamma ! j))"
proof -
  from argmin_loop [OF assms, of "length gamma"] obtain out where o:
    "foldl (argmin_step gamma) (gamma ! 0, 0) [0..<length gamma] = (gamma ! out, int out)"
    "out < max 1 (length gamma)"
    "\<forall>j<length gamma. \<not> dlt (gamma ! j) (gamma ! out)"
    "\<forall>j<out. dlt (gamma ! out) (gamma ! j)"
    by auto
  have len: "0 < length gamma"
    using assms(1) by simp
  have "\<not> int (length gamma) < max 1 (int (length gamma))"
    using len by (auto simp: max_def)
  then have "argmin_minind gamma (int (length gamma)) = Inr (int out)"
    using o(1) by (simp add: argmin_minind_def)
  moreover have "int out < int (length gamma)"
    using o(2) len by simp
  ultimately show ?thesis
    using o(3,4) by (intro exI[of _ "int out"]) simp
qed

theorem argmin_minind_first_minimum_witness:
  "[Finite 3, Finite 1, Finite 2, Finite 1] \<noteq> []
   \<and> NaN \<notin> set [Finite 3, Finite 1, Finite 2, Finite 1]
   \<and> argmin_minind [Finite 3, Finite 1, Finite 2, Finite 1] 4 = Inr 1
   \<and> (\<exists>lambda. argmin_minind [Finite 3, Finite 1, Finite 2, Finite 1]
          (int (length [Finite 3, Finite 1, Finite 2, Finite 1])) = Inr lambda
        \<and> 0 \<le> lambda \<and> lambda < int (length [Finite 3, Finite 1, Finite 2, Finite 1])
        \<and> (\<forall>j < length [Finite 3, Finite 1, Finite 2, Finite 1].
              \<not> dlt ([Finite 3, Finite 1, Finite 2, Finite 1] ! j)
                    ([Finite 3, Finite 1, Finite 2, Finite 1] ! nat lambda))
        \<and> (\<forall>j < nat lambda.
              dlt ([Finite 3, Finite 1, Finite 2, Finite 1] ! nat lambda)
                  ([Finite 3, Finite 1, Finite 2, Finite 1] ! j)))"
proof -
  have ne: "[Finite 3, Finite 1, Finite 2, Finite 1] \<noteq> []"
    by simp
  have nn: "NaN \<notin> set [Finite 3, Finite 1, Finite 2, Finite 1]"
    by simp
  have ev: "argmin_minind [Finite 3, Finite 1, Finite 2, Finite 1] 4 = Inr 1"
    by (simp add: argmin_minind_def argmin_step_def upt_rec numeral_eq_Suc)
  show ?thesis
    using ne nn ev argmin_minind_first_minimum [OF ne nn] by blast
qed

section \<open>Properties of \<^verbatim>\<open>linear_fit\<close>\<close>

text \<open>
  C9. The claim: with a denominator that is not zero, the fit returns the coefficients of
  the least-squares line over \<open>t_i = i * ts / n\<close>. The code sums \<^verbatim>\<open>sqrt(x)\<close> where the
  least-squares formulas have the squares (its own comment: \<^verbatim>\<open>//TODO fix this or delete,
  not sqrt...\<close>). For the samples 0 and 4 at the times 0 and 4 (\<open>n = 2\<close>, \<open>ts = 8\<close>) the
  denominator is 2 and the fit returns \<open>a = 8\<close>, \<open>b = -28\<close>, a line with residual sum 784;
  the samples lie on the line \<open>a = 1\<close>, \<open>b = 0\<close>, whose residual sum is 0.
\<close>

theorem linear_fit_not_least_squares:
  "linear_fit (window_mem (Finite 0) [0, 4] (Finite 0)) 2 8
     = \<lparr> fit_ret = 0, fit_a = Finite 8, fit_b = Finite (- 28), fit_r = Finite 8 \<rparr>
   \<and> spec_residual_sum 8 [0, 4] 8 (- 28) = 784
   \<and> spec_residual_sum 8 [0, 4] 1 0 = 0"
  by (simp add: linear_fit_def fit_loop_def fit_step_def fit_time_def fit_denom_def
      window_mem_def dbl_of_int_def dsub_def deq_def Let_def upt_rec numeral_2_eq_2
      spec_residual_sum_def lessThan_Suc)

text \<open>
  C8. The claim: the window is given up with the error result whenever the denominator of
  the fit is zero or \<open>r\<close> is a NaN. For the NaN the code does so. For the zero
  denominator \<^verbatim>\<open>linear_fit\<close> returns \<open>-1\<close>, but it also sets \<open>r = 0\<close>, and \<^verbatim>\<open>ampd\<close> drops
  the returned value and tests \<open>r\<close> only: whenever the fit fails in this way, \<^verbatim>\<open>ampd\<close>
  does not return \<open>-1\<close> and goes on with the window. A window of one sample is such an
  input.
\<close>

theorem ampd_ignores_fit_failure:
  assumes "fit_ret (linear_fit data n (TIMESTEP_DEFAULT c)) = - 1"
  shows "ampd c s pre data n \<noteq> Inr (- 1, peaks)"
proof -
  have r: "fit_r (linear_fit data n (TIMESTEP_DEFAULT c)) = Finite 0"
    using assms by (simp add: linear_fit_def Let_def split: if_splits)
  show ?thesis
    using r by (auto simp: ampd_def Let_def dne_def deq_def split: sum.splits)
qed

theorem ampd_ignores_fit_failure_witness:
  "fit_ret (linear_fit (window_mem (Finite 1) [5] (Finite 1)) 1 (TIMESTEP_DEFAULT test_macros))
     = - 1
   \<and> ampd test_macros zero_draws 0 (window_mem (Finite 1) [5] (Finite 1)) 1 \<noteq> Inr (- 1, [])"
proof -
  have f: "fit_ret (linear_fit (window_mem (Finite 1) [5] (Finite 1)) 1
      (TIMESTEP_DEFAULT test_macros)) = - 1"
    by (simp add: linear_fit_def fit_loop_def fit_step_def fit_time_def fit_denom_def
        window_mem_def dbl_of_int_def dsub_def deq_def Let_def)
  show ?thesis
    using f ampd_ignores_fit_failure [OF f] by simp
qed

section \<open>Properties of the scalogram\<close>

lemma local_max_row0: "\<not> local_max data 0 i"
  by (simp add: local_max_def dgt_def dlt_irrefl)

lemma lms_cell_row0: "lms_cell c s data n l 0 i = noise c s l 0 i"
  by (simp add: lms_cell_def local_max_row0)

lemma noise_nonzero:
  assumes "0 < ALPHA c" "0 \<le> RAND_FACTOR c" "\<forall>j. 0 \<le> s j"
  shows "noise c s l k i \<noteq> Finite 0"
proof -
  have "0 \<le> s (nat (i * l + k)) * RAND_FACTOR c"
    using assms by simp
  then show ?thesis
    using assms(1) by (simp add: noise_def)
qed

lemma lms_cell_zero_iff:
  assumes "0 < ALPHA c" "0 \<le> RAND_FACTOR c" "\<forall>j. 0 \<le> s j"
  shows "(lms_cell c s data n l k i = Finite 0) =
     (\<not> edge_low i k \<and> \<not> edge_high n i k \<and> local_max data k i)"
  using noise_nonzero [OF assms] by (simp add: lms_cell_def)

lemma foldl_dadd_Finite:
  "foldl dadd (Finite a) (map (\<lambda>i. Finite (f i)) xs) = Finite (a + sum_list (map f xs))"
  by (induction xs arbitrary: a) (simp_all add: add.assoc)

text \<open>The cells are finite, so no row sum is a NaN.\<close>

lemma foldl_dadd_stays_finite:
  "\<forall>x\<in>set xs. \<exists>v. x = Finite v \<Longrightarrow> \<exists>w. foldl dadd (Finite a) xs = Finite w"
  by (induction xs arbitrary: a) auto

lemma lms_cell_finite: "\<exists>v. lms_cell c s data n l k i = Finite v"
  by (simp add: lms_cell_def noise_def)

lemma row_sum_lms_never_NaN: "NaN \<notin> set (row_sum_lms (calc_lms c s data n l))"
proof
  assume "NaN \<in> set (row_sum_lms (calc_lms c s data n l))"
  then obtain k where
    "NaN = foldl dadd (Finite 0)
       (map (\<lambda>i. lms_cell c s data n l (int k) (int i)) [0..<nat n])"
    by (auto simp: row_sum_lms_def calc_lms_def)
  moreover have
    "\<exists>w. foldl dadd (Finite 0)
       (map (\<lambda>i. lms_cell c s data n l (int k) (int i)) [0..<nat n]) = Finite w"
    by (rule foldl_dadd_stays_finite) (auto simp: lms_cell_finite)
  ultimately show False
    by auto
qed

lemma upt6: "[0..<6] = [0, 1, 2, 3, 4, 5]" and upt2: "[0..<2] = [0, 1]"
  by (simp_all add: upt_rec)

text \<open>
  C7. The claim: where both edge tests pass, the positions \<open>i-1\<close>, \<open>i-k-1\<close> and \<open>i+k-1\<close>
  lie in the window. They need not. In a window of 6 samples, row 1 and column 1 pass
  both tests and position \<open>i-k-1\<close> is \<open>-1\<close>: the cell is 0 or noise according to what
  lies in front of the window. In a window of 8 samples, row 2 and column 7 pass both
  tests and position \<open>i+k-1\<close> is \<open>8\<close>: the cell follows what lies behind the window.
  (Row 0 and column 0 read \<open>-1\<close> three times.)
\<close>

theorem calc_lms_reads_outside_window:
  "\<not> edge_low 1 1 \<and> \<not> edge_high 6 1 1
   \<and> lms_cell test_macros zero_draws
        (window_mem (Finite 0) [3, 1, 1, 1, 1, 1] (Finite 1)) 6 2 1 1 = Finite 0
   \<and> lms_cell test_macros zero_draws
        (window_mem (Finite 5) [3, 1, 1, 1, 1, 1] (Finite 1)) 6 2 1 1 = Finite 1
   \<and> \<not> edge_low 7 2 \<and> \<not> edge_high 8 7 2
   \<and> lms_cell test_macros zero_draws
        (window_mem (Finite 1) [1, 1, 1, 1, 1, 1, 3, 1] (Finite 0)) 8 3 2 7 = Finite 0
   \<and> lms_cell test_macros zero_draws
        (window_mem (Finite 1) [1, 1, 1, 1, 1, 1, 3, 1] (Finite 5)) 8 3 2 7 = Finite 1"
  by (simp add: edge_low_def edge_high_def lms_cell_def local_max_def dgt_def window_mem_def
      noise_def test_macros_def zero_draws_def)

text \<open>
  C10. With \<open>ALPHA > 0\<close>, \<open>RAND_FACTOR \<ge> 0\<close> and draws that are not negative (the noise
  value of the spec, \<open>alpha + rand_factor * U(0,1)\<close>), the first stored row of a
  scalogram with at least one row holds the noise value in every cell and \<open>0.0\<close> in
  none, whatever the samples: the test at \<open>k = 0\<close> compares \<^verbatim>\<open>data[i-1]\<close> with itself.
  So \<^verbatim>\<open>gamma[0]\<close> is the sum of the noise values of the row.
\<close>

theorem first_row_is_noise:
  assumes "0 < l" "0 < ALPHA c" "0 \<le> RAND_FACTOR c" "\<forall>j. 0 \<le> s j"
  shows "calc_lms c s data n l ! 0 = map (\<lambda>i. noise c s l 0 (int i)) [0..<nat n]
     \<and> Finite 0 \<notin> set (calc_lms c s data n l ! 0)
     \<and> row_sum_lms (calc_lms c s data n l) ! 0 =
         Finite (\<Sum>i\<leftarrow>[0..<nat n]. s (nat (int i * l)) * RAND_FACTOR c + ALPHA c)"
proof -
  have l: "0 < nat l"
    using assms(1) by simp
  have row: "calc_lms c s data n l ! 0 = map (\<lambda>i. noise c s l 0 (int i)) [0..<nat n]"
    using l by (simp add: calc_lms_def lms_cell_row0)
  have nz: "Finite 0 \<notin> set (calc_lms c s data n l ! 0)"
    unfolding row using noise_nonzero [OF assms(2,3,4)] by (auto simp: image_iff) metis
  have "row_sum_lms (calc_lms c s data n l) ! 0
      = foldl dadd (Finite 0) (calc_lms c s data n l ! 0)"
    using l by (simp add: row_sum_lms_def calc_lms_def)
  also have "\<dots> = Finite (\<Sum>i\<leftarrow>[0..<nat n]. s (nat (int i * l)) * RAND_FACTOR c + ALPHA c)"
    unfolding row noise_def by (simp add: foldl_dadd_Finite)
  finally show ?thesis
    using row nz by simp
qed

theorem first_row_is_noise_witness:
  "(0::int) < 2 \<and> 0 < ALPHA test_macros \<and> 0 \<le> RAND_FACTOR test_macros
   \<and> (\<forall>j. 0 \<le> low_high_draws j)
   \<and> calc_lms test_macros low_high_draws flat6 6 2 ! 0
       = [Finite 1, Finite 1, Finite 1, Finite 1, Finite 1, Finite 1]
   \<and> Finite 0 \<notin> set (calc_lms test_macros low_high_draws flat6 6 2 ! 0)
   \<and> row_sum_lms (calc_lms test_macros low_high_draws flat6 6 2) ! 0 = Finite 6"
proof -
  have l: "(0::int) < 2"
    by simp
  have a: "0 < ALPHA test_macros" and f: "0 \<le> RAND_FACTOR test_macros"
    by (simp_all add: test_macros_def)
  have d: "\<forall>j. 0 \<le> low_high_draws j"
    by (simp add: low_high_draws_def)
  have n: "map (\<lambda>i. noise test_macros low_high_draws 2 0 (int i)) [0..<nat 6]
      = [Finite 1, Finite 1, Finite 1, Finite 1, Finite 1, Finite 1]"
    by (simp add: noise_def low_high_draws_def test_macros_def upt6)
  have sm: "(\<Sum>i\<leftarrow>[0..<nat 6]. low_high_draws (nat (int i * 2)) * RAND_FACTOR test_macros
      + ALPHA test_macros) = 6"
    by (simp add: low_high_draws_def test_macros_def upt6)
  note w = first_row_is_noise [OF l a f d, of flat6 6, unfolded n sm]
  show ?thesis
    using l a f d w by blast
qed

section \<open>The random draws and the peaks\<close>

lemma sqrt_15_less: "sqrt 15 < 4"
  by (rule real_less_lsqrt) simp_all

lemma sqrt_6_less: "sqrt 6 < 3"
  by (rule real_less_lsqrt) simp_all

lemma fit_loop_flat6:
  "fit_loop flat6 6 6 =
     \<lparr> sumx = Finite 15, sumx2 = Finite (3 + sqrt 2 + sqrt 3 + sqrt 5), sumxy = Finite 15,
       sumy = Finite 6, sumy2 = Finite 6 \<rparr>"
  by (simp add: fit_loop_def fit_step_def fit_time_def flat6_def window_mem_def
      dbl_of_int_def Let_def upt_rec numeral_eq_Suc)

text \<open>
  The fit of the constant window: slope 0, some finite intercept, and \<open>r = 0\<close>, so
  \<^verbatim>\<open>ampd\<close> goes on.
\<close>

lemma linear_fit_flat6:
  "\<exists>b0. linear_fit flat6 6 6
     = \<lparr> fit_ret = 0, fit_a = Finite 0, fit_b = Finite b0, fit_r = Finite 0 \<rparr>"
proof -
  define D where "D = 3 + sqrt 2 + sqrt 3 + sqrt 5"
  define S where "S = \<lparr> sumx = Finite 15, sumx2 = Finite D, sumxy = Finite 15,
    sumy = Finite 6, sumy2 = Finite 6 \<rparr>"
  have fl: "fit_loop flat6 6 6 = S"
    by (simp add: fit_loop_flat6 S_def D_def)
  have D: "3 \<le> D"
    unfolding D_def by simp
  have den: "6 * D - sqrt 15 \<noteq> 0"
    using D sqrt_15_less by linarith
  have A: "0 < D - sqrt 15 / 6"
    using D sqrt_15_less by linarith
  have B: "0 < 6 - sqrt 6 / 6"
    using sqrt_6_less by linarith
  have AB: "0 < (D - sqrt 15 / 6) * (6 - sqrt 6 / 6)"
    using A B by simp
  have dn: "fit_denom 6 S = Finite (6 * D - sqrt 15)"
    by (simp add: fit_denom_def S_def dbl_of_int_def dsub_def)
  have nz: "\<not> deq (Finite (6 * D - sqrt 15)) (Finite 0)"
    using den by (simp add: deq_def)
  have a: "ddiv (dsub (dmul (dbl_of_int 6) (sumxy S)) (dmul (sumx S) (sumy S)))
      (Finite (6 * D - sqrt 15)) = Finite 0"
    using den by (simp add: S_def dbl_of_int_def dsub_def)
  have b: "ddiv (dsub (dmul (sumy S) (sumx2 S)) (dmul (sumx S) (sumxy S)))
      (Finite (6 * D - sqrt 15)) = Finite ((6 * D - 15 * 15) / (6 * D - sqrt 15))"
    using den by (simp add: S_def dbl_of_int_def dsub_def)
  have r1: "dsqrt (dmul (dsub (sumx2 S) (ddiv (dsqrt (sumx S)) (dbl_of_int 6)))
                        (dsub (sumy2 S) (ddiv (dsqrt (sumy S)) (dbl_of_int 6))))
      = Finite (sqrt ((D - sqrt 15 / 6) * (6 - sqrt 6 / 6)))"
    using AB by (simp add: S_def dbl_of_int_def dsub_def
        del: real_sqrt_mult mult_less_0_iff zero_less_mult_iff)
  have r2: "dsub (sumxy S) (ddiv (dmul (sumx S) (sumy S)) (dbl_of_int 6)) = Finite 0"
    by (simp add: S_def dbl_of_int_def dsub_def)
  have "0 < sqrt ((D - sqrt 15 / 6) * (6 - sqrt 6 / 6))"
    using AB by (rule real_sqrt_gt_zero)
  then have s: "sqrt ((D - sqrt 15 / 6) * (6 - sqrt 6 / 6)) \<noteq> 0"
    by linarith
  have r: "ddiv (Finite 0) (Finite (sqrt ((D - sqrt 15 / 6) * (6 - sqrt 6 / 6)))) = Finite 0"
    using s by (simp del: real_sqrt_eq_zero_cancel_iff real_sqrt_mult)
  have "linear_fit flat6 6 6 = \<lparr> fit_ret = 0, fit_a = Finite 0,
      fit_b = Finite ((6 * D - 15 * 15) / (6 * D - sqrt 15)), fit_r = Finite 0 \<rparr>"
    unfolding linear_fit_def fl Let_def dn
    by (simp only: nz a b r1 r2 r if_False)
  then show ?thesis
    by blast
qed

lemma linear_detrend_flat6:
  "linear_detrend flat6 6 6 (Finite 0) (Finite b0) =
     window_mem (Finite 1) [1 - b0, 1 - b0, 1 - b0, 1 - b0, 1 - b0, 1 - b0] (Finite 1)"
proof
  fix i :: int
  consider "i < 0" | "i = 0" | "i = 1" | "i = 2" | "i = 3" | "i = 4" | "i = 5" | "6 \<le> i"
    by linarith
  then show "linear_detrend flat6 6 6 (Finite 0) (Finite b0) i =
     window_mem (Finite 1) [1 - b0, 1 - b0, 1 - b0, 1 - b0, 1 - b0, 1 - b0] (Finite 1) i"
    by cases (simp_all add: linear_detrend_def flat6_def window_mem_def dbl_of_int_def dsub_def)
qed

lemma calc_lms_low_high:
  "calc_lms test_macros low_high_draws
     (window_mem (Finite 1) [v, v, v, v, v, v] (Finite 1)) 6 2 =
   [[Finite 1, Finite 1, Finite 1, Finite 1, Finite 1, Finite 1],
    [Finite 2, Finite 2, Finite 2, Finite 2, Finite 2, Finite 2]]"
  by (simp add: calc_lms_def lms_cell_def edge_low_def edge_high_def local_max_def dgt_def
      noise_def test_macros_def low_high_draws_def window_mem_def upt6 upt2)

lemma calc_lms_high_low:
  "calc_lms test_macros high_low_draws
     (window_mem (Finite 1) [v, v, v, v, v, v] (Finite 1)) 6 2 =
   [[Finite 2, Finite 2, Finite 2, Finite 2, Finite 2, Finite 2],
    [Finite 1, Finite 1, Finite 1, Finite 1, Finite 1, Finite 1]]"
  by (simp add: calc_lms_def lms_cell_def edge_low_def edge_high_def local_max_def dgt_def
      noise_def test_macros_def high_low_draws_def window_mem_def upt6 upt2)

lemma timestep_test_macros: "TIMESTEP_DEFAULT test_macros = 6"
  by (simp add: test_macros_def)

lemma scales_6: "scales 6 = 2"
  by (simp add: scales_def c_div_def)

lemma ampd_low_high: "ampd test_macros low_high_draws 0 flat6 6 = Inr (2, [2, 4])"
proof -
  obtain b0 where f: "linear_fit flat6 6 6
      = \<lparr> fit_ret = 0, fit_a = Finite 0, fit_b = Finite b0, fit_r = Finite 0 \<rparr>"
    using linear_fit_flat6 by blast
  have g: "row_sum_lms [[Finite 1, Finite 1, Finite 1, Finite 1, Finite 1, Finite 1],
      [Finite 2, Finite 2, Finite 2, Finite 2, Finite 2, Finite 2]] = [Finite 6, Finite 12]"
    by (simp add: row_sum_lms_def)
  have l: "argmin_minind [Finite 6, Finite 12] 2 = Inr 0"
    by (simp add: argmin_minind_def argmin_step_def upt_rec numeral_eq_Suc)
  have sg: "col_stddev_lms [[Finite 1, Finite 1, Finite 1, Finite 1, Finite 1, Finite 1],
      [Finite 2, Finite 2, Finite 2, Finite 2, Finite 2, Finite 2]] 6 0
      = [Finite 0, Finite 0, Finite 0, Finite 0, Finite 0, Finite 0]"
    by (simp add: col_stddev_lms_def col_dev_def upt_rec numeral_eq_Suc)
  have fp: "find_peaks test_macros
      [Finite 0, Finite 0, Finite 0, Finite 0, Finite 0, Finite 0] 6 0 = [2, 4]"
    by (simp add: find_peaks_def find_peaks_step_def test_macros_def peaks_read_def
        HARDTRESHOLD_PEAKS_def upt_rec numeral_eq_Suc)
  show ?thesis
    unfolding ampd_def timestep_test_macros scales_6 Let_def f
    by (simp add: dne_def deq_def linear_detrend_flat6 calc_lms_low_high g l sg fp)
qed

lemma ampd_high_low: "ampd test_macros high_low_draws 0 flat6 6 = Inr (0, [])"
proof -
  obtain b0 where f: "linear_fit flat6 6 6
      = \<lparr> fit_ret = 0, fit_a = Finite 0, fit_b = Finite b0, fit_r = Finite 0 \<rparr>"
    using linear_fit_flat6 by blast
  have g: "row_sum_lms [[Finite 2, Finite 2, Finite 2, Finite 2, Finite 2, Finite 2],
      [Finite 1, Finite 1, Finite 1, Finite 1, Finite 1, Finite 1]] = [Finite 12, Finite 6]"
    by (simp add: row_sum_lms_def)
  have l: "argmin_minind [Finite 12, Finite 6] 2 = Inr 1"
    by (simp add: argmin_minind_def argmin_step_def upt_rec numeral_eq_Suc)
  have sg: "col_stddev_lms [[Finite 2, Finite 2, Finite 2, Finite 2, Finite 2, Finite 2],
      [Finite 1, Finite 1, Finite 1, Finite 1, Finite 1, Finite 1]] 6 1
      = [NaN, NaN, NaN, NaN, NaN, NaN]"
    by (simp add: col_stddev_lms_def col_dev_def col_mean_def dbl_of_int_def dsub_def
        inf_of_sign_def upt_rec numeral_eq_Suc)
  have fp: "find_peaks test_macros [NaN, NaN, NaN, NaN, NaN, NaN] 6 0 = []"
    by (simp add: find_peaks_def find_peaks_step_def test_macros_def peaks_read_def
        HARDTRESHOLD_PEAKS_def upt_rec numeral_eq_Suc)
  show ?thesis
    unfolding ampd_def timestep_test_macros scales_6 Let_def f
    by (simp add: dne_def deq_def linear_detrend_flat6 calc_lms_high_low g l sg fp)
qed

text \<open>
  C3, as stated: two runs on the same samples with different random draws return the
  same peaks. It fails on the window of six samples 1. With the draws 0 for row 0 and 1
  for row 1 the row sums are 6 and 12, \<open>lambda\<close> is 0, every \<open>sigma[i]\<close> is 0 and the
  peaks 2 and 4 are returned; with the draws exchanged the row sums are 12 and 6,
  \<open>lambda\<close> is 1, every \<open>sigma[i]\<close> is the NaN of \<open>0 / 0\<close> and no peak is returned.
\<close>

theorem ampd_peaks_depend_on_draws:
  "ampd test_macros low_high_draws 0 flat6 6 = Inr (2, [2, 4])
   \<and> ampd test_macros high_low_draws 0 flat6 6 = Inr (0, [])"
  using ampd_low_high ampd_high_low by simp

text \<open>
  C3, amended: the random draws never influence which cells of the scalogram are flagged
  \<open>0\<close>. For noise values that are positive (\<open>ALPHA > 0\<close>, \<open>RAND_FACTOR \<ge> 0\<close>, draws not
  negative), two runs of \<^verbatim>\<open>calc_lms\<close> on the same samples with any two sequences of
  draws have their zeros in the same cells.
\<close>

theorem scalogram_zeros_independent_of_draws:
  assumes "0 < ALPHA c" "0 \<le> RAND_FACTOR c" "\<forall>j. 0 \<le> s1 j" "\<forall>j. 0 \<le> s2 j"
  shows "map (map (\<lambda>x. x = Finite 0)) (calc_lms c s1 data n l) =
         map (map (\<lambda>x. x = Finite 0)) (calc_lms c s2 data n l)"
  by (simp add: calc_lms_def lms_cell_zero_iff [OF assms(1,2,3)]
      lms_cell_zero_iff [OF assms(1,2,4)])

theorem scalogram_zeros_independent_of_draws_witness:
  "0 < ALPHA test_macros \<and> 0 \<le> RAND_FACTOR test_macros
   \<and> (\<forall>j. 0 \<le> low_high_draws j) \<and> (\<forall>j. 0 \<le> high_low_draws j)
   \<and> map (map (\<lambda>x. x = Finite 0))
       (calc_lms test_macros low_high_draws
          (window_mem (Finite 1) [1, 3, 1, 1, 1, 1] (Finite 1)) 6 2)
     = [[False, False, False, False, False, False], [False, False, True, False, False, False]]
   \<and> map (map (\<lambda>x. x = Finite 0))
       (calc_lms test_macros high_low_draws
          (window_mem (Finite 1) [1, 3, 1, 1, 1, 1] (Finite 1)) 6 2)
     = [[False, False, False, False, False, False], [False, False, True, False, False, False]]"
proof -
  have a: "0 < ALPHA test_macros" and f: "0 \<le> RAND_FACTOR test_macros"
    by (simp_all add: test_macros_def)
  have d1: "\<forall>j. 0 \<le> low_high_draws j"
    by (simp add: low_high_draws_def)
  have d2: "\<forall>j. 0 \<le> high_low_draws j"
    by (simp add: high_low_draws_def)
  have ev: "map (map (\<lambda>x. x = Finite 0))
       (calc_lms test_macros low_high_draws
          (window_mem (Finite 1) [1, 3, 1, 1, 1, 1] (Finite 1)) 6 2)
     = [[False, False, False, False, False, False], [False, False, True, False, False, False]]"
    by (simp add: calc_lms_def lms_cell_def edge_low_def edge_high_def local_max_def dgt_def
      noise_def test_macros_def low_high_draws_def window_mem_def upt6 upt2)
  show ?thesis
    using a f d1 d2 ev
      scalogram_zeros_independent_of_draws [OF a f d1 d2,
        of "window_mem (Finite 1) [1, 3, 1, 1, 1, 1] (Finite 1)" 6 2]
    by simp
qed

end
